theory Spec2Isabelle
  imports Complex_Main
begin

section \<open>Python values used by the chatbot core\<close>

text \<open>
  Text is a list of code points. The model covers the code points below 256, so a
  \<^typ>\<open>char\<close> is one Python character (not a UTF-8 byte). Exceptions are values: every
  function of the source that can raise returns \<open>exn + 'a\<close>, with \<open>Inl\<close> for the raise.
  All constructors of \<open>exn\<close> are subclasses of Python's \<open>Exception\<close>; the argument is the
  text that \<open>str(e)\<close> gives.
\<close>

datatype exn =
    ValueError string
  | ImportError string
  | ConnectionError string
  | TypeError string
  | IndexError string
  | AttributeError string
  | KeyError string
  | RuntimeError string
  | OtherException string

fun str_exn :: "exn \<Rightarrow> string" where
  "str_exn (ValueError m) = m"
| "str_exn (ImportError m) = m"
| "str_exn (ConnectionError m) = m"
| "str_exn (TypeError m) = m"
| "str_exn (IndexError m) = m"
| "str_exn (AttributeError m) = m"
| "str_exn (KeyError m) = m"
| "str_exn (RuntimeError m) = m"
| "str_exn (OtherException m) = m"

definition newline :: char where
  "newline = CHR 0x0A"

text \<open>\<open>str.lower()\<close> on the code points below 256: A-Z and the capital letters of
  Latin-1 (0xC0-0xDE without the multiplication sign 0xD7) move up by 32.\<close>

definition lower_char :: "char \<Rightarrow> char" where
  "lower_char c =
     (let n = (of_char c :: nat)
      in if (65 \<le> n \<and> n \<le> 90) \<or> (192 \<le> n \<and> n \<le> 222 \<and> n \<noteq> 215)
         then char_of (n + 32) else c)"

definition lower :: "string \<Rightarrow> string" where
  "lower s = map lower_char s"

text \<open>The class \<open>\w\<close> of \<open>re\<close> on \<open>str\<close> patterns: alphanumeric code points and the
  underscore. Below 256 the alphanumerics outside ASCII are the ordinal indicators, the
  micro sign, the superscript digits, the vulgar fractions and the Latin-1 letters.\<close>

definition is_word_char :: "char \<Rightarrow> bool" where
  "is_word_char c =
     (let n = (of_char c :: nat)
      in (48 \<le> n \<and> n \<le> 57) \<or> (65 \<le> n \<and> n \<le> 90) \<or> n = 95 \<or> (97 \<le> n \<and> n \<le> 122)
         \<or> n = 170 \<or> n = 178 \<or> n = 179 \<or> n = 181 \<or> n = 185 \<or> n = 186
         \<or> (188 \<le> n \<and> n \<le> 190) \<or> (192 \<le> n \<and> n \<le> 214) \<or> (216 \<le> n \<and> n \<le> 246)
         \<or> (248 \<le> n \<and> n \<le> 255))"

text \<open>\<open>s.startswith(k)\<close> and the substring test \<open>k in s\<close>.\<close>

fun startswith :: "string \<Rightarrow> string \<Rightarrow> bool" where
  "startswith s [] = True"
| "startswith [] (k # ks) = False"
| "startswith (c # cs) (k # ks) = (c = k \<and> startswith cs ks)"

fun py_in :: "string \<Rightarrow> string \<Rightarrow> bool" where
  "py_in k [] = (k = [])"
| "py_in k (c # cs) = (startswith (c # cs) k \<or> py_in k cs)"

text \<open>\<open>random.choice(seq)\<close>: the random source is the number \<open>rnd\<close> it draws; an empty
  sequence raises IndexError.\<close>

definition random_choice :: "nat \<Rightarrow> 'a list \<Rightarrow> exn + 'a" where
  "random_choice rnd seq =
     (if seq = [] then Inl (IndexError ''Cannot choose from an empty sequence'')
      else Inr (seq ! (rnd mod length seq)))"

text \<open>\<open>sep.join(xs)\<close> on a list of strings.\<close>

fun join :: "string \<Rightarrow> string list \<Rightarrow> string" where
  "join sep [] = []"
| "join sep [x] = x"
| "join sep (x # y # ys) = x @ sep @ join sep (y # ys)"

section \<open>Regular expressions of the guardrails\<close>

text \<open>
  The constructs of \<open>re\<close> that the off-topic patterns use: a literal, \<open>\b\<close>, an
  alternation \<open>(a|b|...)\<close>, a sequence, \<open>.*\<close> and the negative lookahead \<open>(?!...)\<close>.
\<close>

datatype regex =
    Lit string
  | WordB
  | Alt "regex list"
  | Seq "regex list"
  | DotStar
  | NegAhead regex

definition word_before :: "string \<Rightarrow> nat \<Rightarrow> bool" where
  "word_before t i = (0 < i \<and> i \<le> length t \<and> is_word_char (t ! (i - 1)))"

definition word_after :: "string \<Rightarrow> nat \<Rightarrow> bool" where
  "word_after t i = (i < length t \<and> is_word_char (t ! i))"

definition at_word_boundary :: "string \<Rightarrow> nat \<Rightarrow> bool" where
  "at_word_boundary t i = (word_before t i \<noteq> word_after t i)"

text \<open>A literal under \<open>re.IGNORECASE\<close>: characters are compared after lower-casing.\<close>

definition lit_at :: "string \<Rightarrow> string \<Rightarrow> nat \<Rightarrow> bool" where
  "lit_at w t i = (i + length w \<le> length t \<and> lower (take (length w) (drop i t)) = lower w)"

text \<open>\<open>.\<close> matches every character but the newline, so \<open>.*\<close> started at \<open>i\<close> can stop at
  every position up to the end of the line.\<close>

definition line_rest :: "string \<Rightarrow> nat \<Rightarrow> nat" where
  "line_rest t i = length (takeWhile (\<lambda>c. c \<noteq> newline) (drop i t))"

text \<open>\<open>ends r t i\<close> lists the positions where a match of \<open>r\<close> that starts at position
  \<open>i\<close> of \<open>t\<close> can end, in the order in which the backtracking matcher tries them.\<close>

fun ends :: "regex \<Rightarrow> string \<Rightarrow> nat \<Rightarrow> nat list" where
  "ends (Lit w) t i = (if lit_at w t i then [i + length w] else [])"
| "ends WordB t i = (if at_word_boundary t i then [i] else [])"
| "ends (Alt rs) t i = concat (map (\<lambda>r. ends r t i) rs)"
| "ends (Seq []) t i = [i]"
| "ends (Seq (r # rs)) t i = concat (map (\<lambda>j. ends (Seq rs) t j) (ends r t i))"
| "ends DotStar t i = rev [i ..< Suc (i + line_rest t i)]"
| "ends (NegAhead r) t i = (if ends r t i = [] then [i] else [])"

text \<open>\<open>re.search(pattern, t, re.IGNORECASE)\<close> is not None.\<close>

definition re_search :: "regex \<Rightarrow> string \<Rightarrow> bool" where
  "re_search r t = list_ex (\<lambda>i. ends r t i \<noteq> []) [0 ..< Suc (length t)]"

section \<open>The file processor, as far as the guardrails read it\<close>

text \<open>
  A loaded data frame is known to the core by its column labels and its number of rows.
  A column label of a data frame need not be a \<open>str\<close> (a spreadsheet header can be a
  number or a date); \<open>OtherLabel\<close> carries the name of its type. The dictionary
  \<open>loaded_files\<close> keeps insertion order, so it is an association list.
\<close>

datatype label = StrLabel string | OtherLabel string

record DataFrame =
  columns :: "label list"
  nrows :: nat

record FileProcessor =
  loaded_files :: "(string \<times> DataFrame) list"
  current_file_context :: "string option"

record file_info =
  fi_filename :: string
  fi_shape :: "nat \<times> nat"
  fi_columns :: "label list"

definition list_loaded_files :: "FileProcessor \<Rightarrow> string list" where
  "list_loaded_files fp = map fst (loaded_files fp)"

definition get_current_context :: "FileProcessor \<Rightarrow> string option" where
  "get_current_context fp = current_file_context fp"

text \<open>Of the dictionary that \<open>get_file_info\<close> builds, the entries \<open>filename\<close>, \<open>shape\<close>
  and \<open>columns\<close> are modelled; the other entries are not read by the core.\<close>

definition get_file_info :: "FileProcessor \<Rightarrow> string \<Rightarrow> file_info option" where
  "get_file_info fp filename =
     (case map_of (loaded_files fp) filename of
        None \<Rightarrow> None
      | Some df \<Rightarrow> Some \<lparr>fi_filename = filename,
                         fi_shape = (nrows df, length (columns df)),
                         fi_columns = columns df\<rparr>)"

section \<open>guardrails.py: DataGuardrails\<close>

definition data_keywords :: "string list" where
  "data_keywords =
     [''data'', ''column'', ''row'', ''table'', ''csv'', ''excel'', ''file'',
      ''analyze'', ''analysis'', ''statistics'', ''stats'', ''summary'',
      ''count'', ''sum'', ''average'', ''mean'', ''median'', ''max'', ''min'',
      ''trend'', ''pattern'', ''correlation'', ''distribution'',
      ''filter'', ''sort'', ''group'', ''aggregate'', ''pivot'',
      ''chart'', ''graph'', ''plot'', ''visualization'',
      ''missing'', ''null'', ''duplicate'', ''unique'',
      ''sales'', ''revenue'', ''product'', ''customer'', ''region'']"

definition programming_terms :: "string list" where
  "programming_terms = [''programming'', ''code'', ''software'', ''development'']"

text \<open>The fifth pattern, \<open>\b(programming|code|software|development)\b(?!.*data)\<close>.\<close>

definition programming_pattern :: regex where
  "programming_pattern =
     Seq [WordB, Alt (map Lit programming_terms), WordB, NegAhead (Seq [DotStar, Lit ''data''])]"

definition off_topic_patterns :: "regex list" where
  "off_topic_patterns =
     [Seq [WordB, Alt [Lit ''weather'', Lit ''news'', Lit ''politics'', Lit ''sports'',
                       Lit ''entertainment'', Lit ''movies'', Lit ''music''], WordB],
      Seq [WordB, Alt [Lit ''recipe'', Lit ''cooking'', Lit ''food'', Lit ''restaurant''], WordB],
      Seq [WordB, Alt [Lit ''travel'', Lit ''vacation'', Lit ''hotel'', Lit ''flight''], WordB],
      Seq [WordB, Alt [Lit ''health'', Lit ''medical'', Lit ''doctor'', Lit ''medicine''], WordB],
      programming_pattern,
      Seq [WordB, Alt [Lit ''personal'', Lit ''family'', Lit ''relationship'', Lit ''dating''], WordB],
      Seq [WordB, Alt [Lit ''joke'', Lit ''funny'', Lit ''humor'', Lit ''meme''], WordB]]"



definition redirect_responses :: "string list" where
  "redirect_responses =
     [''I'm here to help you analyze and understand your data files. Let's focus on the data you've loaded.'',
      ''I specialize in data analysis. Would you like to explore the information in your files instead?'',
      ''Let's keep our conversation focused on your data. What would you like to know about the loaded files?'',
      ''I'm designed to help with data analysis and file exploration. How can I assist you with your data?'']"

definition no_data_responses :: "string list" where
  "no_data_responses =
     [''I don't see any data files loaded yet. Would you like to load a file from the data folder?'',
      ''To get started, please load a data file using the 'load' command. I can then help you analyze it.'',
      ''No data files are currently loaded. Use 'files' to see available files or 'load <filename>' to load one.'']"

text \<open>\<open>any(keyword in t for keyword in keywords)\<close>, and the loop over the off-topic
  patterns, which returns at the first pattern that \<open>re.search\<close> finds.\<close>

definition mentions_any :: "string list \<Rightarrow> string \<Rightarrow> bool" where
  "mentions_any keywords t = list_ex (\<lambda>keyword. py_in keyword t) keywords"

definition matches_off_topic :: "string \<Rightarrow> bool" where
  "matches_off_topic t = list_ex (\<lambda>pattern. re_search pattern t) off_topic_patterns"

text \<open>\<open>check_query_relevance\<close> returns the pair \<open>(is_relevant, redirect_message)\<close>; the
  message is \<open>None\<close> or a string.\<close>

definition check_query_relevance ::
  "nat \<Rightarrow> FileProcessor \<Rightarrow> string \<Rightarrow> exn + (bool \<times> string option)" where
  "check_query_relevance rnd fp user_input =
     (let user_input_lower = lower user_input;
          files = list_loaded_files fp
      in if files = [] \<and> \<not> mentions_any [''load'', ''file'', ''data''] user_input_lower
         then (case random_choice rnd no_data_responses of
                 Inl e \<Rightarrow> Inl e | Inr m \<Rightarrow> Inr (False, Some m))
         else if matches_off_topic user_input_lower
         then (case random_choice rnd redirect_responses of
                 Inl e \<Rightarrow> Inl e | Inr m \<Rightarrow> Inr (False, Some m))
         else let has_data_keywords = mentions_any data_keywords user_input_lower
              in if has_data_keywords \<or> files \<noteq> [] then Inr (True, None)
                 else (case random_choice rnd redirect_responses of
                         Inl e \<Rightarrow> Inl e | Inr m \<Rightarrow> Inr (False, Some m)))"

text \<open>\<open>str(n)\<close> for a number that is not negative.\<close>

fun str_nat :: "nat \<Rightarrow> string" where
  "str_nat n =
     (if n < 10 then [char_of (48 + n)] else str_nat (n div 10) @ [char_of (48 + n mod 10)])"

declare str_nat.simps [simp del]

text \<open>\<open>', '.join(columns)\<close> raises TypeError at the first item that is not a \<open>str\<close>;
  \<open>label_strs i ls\<close> reads the items from index \<open>i\<close> on.\<close>

fun label_strs :: "nat \<Rightarrow> label list \<Rightarrow> exn + string list" where
  "label_strs i [] = Inr []"
| "label_strs i (StrLabel s # ls) =
     (case label_strs (Suc i) ls of Inl e \<Rightarrow> Inl e | Inr ss \<Rightarrow> Inr (s # ss))"
| "label_strs i (OtherLabel ty # ls) =
     Inl (TypeError (''sequence item '' @ str_nat i @ '': expected str instance, '' @ ty @ '' found''))"

definition join_labels :: "string \<Rightarrow> label list \<Rightarrow> exn + string" where
  "join_labels sep ls = (case label_strs 0 ls of Inl e \<Rightarrow> Inl e | Inr ss \<Rightarrow> Inr (join sep ss))"

definition guideline_parts :: "string list" where
  "guideline_parts =
     [newline # ''Guidelines:'',
      ''- Focus only on data analysis, statistics, and insights from the loaded files'',
      ''- Provide specific, actionable insights about the data'',
      ''- If asked about non-data topics, politely redirect to data analysis'',
      ''- Use the actual column names and data when providing examples'']"

text \<open>The block about the loaded files: the parts appended inside \<open>if loaded_files:\<close>.
  \<open>if current_file:\<close> is false for \<open>None\<close> and for the empty string.\<close>

definition file_context_parts :: "FileProcessor \<Rightarrow> exn + string list" where
  "file_context_parts fp =
     (let current_file = get_current_context fp;
          files = list_loaded_files fp
      in if files \<noteq> [] then
           (let listed = [newline # ''Currently loaded files: '' @ join '', '' files]
            in case current_file of
                 None \<Rightarrow> Inr listed
               | Some cf \<Rightarrow>
                   if cf = [] then Inr listed
                   else (case get_file_info fp cf of
                           None \<Rightarrow> Inr listed
                         | Some info \<Rightarrow>
                             (case join_labels '', '' (fi_columns info) of
                                Inl e \<Rightarrow> Inl e
                              | Inr cols \<Rightarrow>
                                  Inr (listed @
                                    [''Active file: '' @ cf,
                                     ''Columns: '' @ cols,
                                     ''Shape: '' @ str_nat (fst (fi_shape info)) @ '' rows ''
                                       @ [CHR 0xD7] @ '' '' @ str_nat (snd (fi_shape info))
                                       @ '' columns'']))))
         else Inr [])"

definition enhance_prompt_with_context :: "FileProcessor \<Rightarrow> string \<Rightarrow> exn + string" where
  "enhance_prompt_with_context fp user_input =
     (case file_context_parts fp of
        Inl e \<Rightarrow> Inl e
      | Inr ctx \<Rightarrow>
          Inr (join [newline]
                 ([''You are a data analysis assistant. Your role is to help users understand and analyze their data files.'']
                  @ ctx @ guideline_parts @ [newline # ''User question: '' @ user_input])))"

section \<open>config.py\<close>

datatype AIProvider = GEMINI | OPENAI | ANTHROPIC | OLLAMA

text \<open>\<open>provider.value\<close> and \<open>str(provider)\<close>.\<close>

fun provider_value :: "AIProvider \<Rightarrow> string" where
  "provider_value GEMINI = ''gemini''"
| "provider_value OPENAI = ''openai''"
| "provider_value ANTHROPIC = ''anthropic''"
| "provider_value OLLAMA = ''ollama''"

fun str_provider :: "AIProvider \<Rightarrow> string" where
  "str_provider GEMINI = ''AIProvider.GEMINI''"
| "str_provider OPENAI = ''AIProvider.OPENAI''"
| "str_provider ANTHROPIC = ''AIProvider.ANTHROPIC''"
| "str_provider OLLAMA = ''AIProvider.OLLAMA''"

record ModelConfig =
  provider :: AIProvider
  model_name :: string
  api_key :: "string option"
  base_url :: "string option"
  max_tokens :: "int option"
  temperature :: real
  additional_params :: "(string \<times> string) list"

text \<open>The class attributes of \<open>Config\<close> that the core reads and writes: the process-wide
  active provider and the table of configurations.\<close>

record Config =
  ACTIVE_MODEL :: AIProvider
  MODEL_CONFIGS :: "AIProvider \<rightharpoonup> ModelConfig"

definition default_model_config :: "AIProvider \<Rightarrow> ModelConfig" where
  "default_model_config p =
     (case p of
        GEMINI \<Rightarrow> \<lparr>provider = GEMINI, model_name = ''gemini-pro'',
                    api_key = Some ''your-gemini-api-key-here'', base_url = None,
                    max_tokens = Some 2048, temperature = 7 / 10, additional_params = []\<rparr>
      | OPENAI \<Rightarrow> \<lparr>provider = OPENAI, model_name = ''gpt-3.5-turbo'',
                    api_key = Some ''your-openai-api-key-here'', base_url = None,
                    max_tokens = Some 2048, temperature = 7 / 10, additional_params = []\<rparr>
      | ANTHROPIC \<Rightarrow> \<lparr>provider = ANTHROPIC, model_name = ''claude-3-sonnet-20240229'',
                    api_key = Some ''your-anthropic-api-key-here'', base_url = None,
                    max_tokens = Some 2048, temperature = 7 / 10, additional_params = []\<rparr>
      | OLLAMA \<Rightarrow> \<lparr>provider = OLLAMA, model_name = ''llama2'',
                    api_key = None, base_url = Some ''http://localhost:11434'',
                    max_tokens = Some 2048, temperature = 7 / 10, additional_params = []\<rparr>)"

definition initial_Config :: Config where
  "initial_Config = \<lparr>ACTIVE_MODEL = OPENAI, MODEL_CONFIGS = (\<lambda>p. Some (default_model_config p))\<rparr>"

definition get_active_config :: "Config \<Rightarrow> exn + ModelConfig" where
  "get_active_config cls =
     (case MODEL_CONFIGS cls (ACTIVE_MODEL cls) of
        None \<Rightarrow> Inl (KeyError (str_provider (ACTIVE_MODEL cls)))
      | Some c \<Rightarrow> Inr c)"

definition Config_switch_model :: "Config \<Rightarrow> AIProvider \<Rightarrow> exn + Config" where
  "Config_switch_model cls p =
     (if MODEL_CONFIGS cls p = None
      then Inl (ValueError (''Unsupported AI provider: '' @ str_provider p))
      else Inr (cls\<lparr>ACTIVE_MODEL := p\<rparr>))"

section \<open>ai_providers.py\<close>

text \<open>
  The client libraries and the servers behind them are not part of the repository. They
  are the parameter \<open>Env\<close>: each call either raises or returns what the adapter reads
  from the reply (the text of a Gemini response, the contents of the choices of a chat
  completion, the texts of the content blocks of an Anthropic message, the status code
  and the decoded body of an HTTP response).
\<close>

record message =
  role :: string
  content :: string

record payload =
  payload_model :: string
  payload_prompt :: string
  payload_stream :: bool
  payload_temperature :: real
  payload_num_predict :: "int option"

record http_response =
  status_code :: nat
  json :: "exn + (string \<times> string) list"

record Env =
  package_installed :: "AIProvider \<Rightarrow> bool"
  client_setup :: "ModelConfig \<Rightarrow> exn option"
  requests_get :: "string \<Rightarrow> exn + nat"
  generate_content :: "string \<Rightarrow> string \<Rightarrow> exn + string"
  chat_completions_create :: "string \<Rightarrow> message list \<Rightarrow> int option \<Rightarrow> real \<Rightarrow> exn + string list"
  messages_create :: "string \<Rightarrow> int option \<Rightarrow> real \<Rightarrow> message list \<Rightarrow> exn + string list"
  requests_post :: "string \<Rightarrow> payload \<Rightarrow> exn + http_response"

text \<open>
  An adapter object: its class (\<open>variant\<close>), the fields of \<open>BaseAIProvider\<close>, whether
  \<open>self.model\<close> / \<open>self.client\<close> has been set by \<open>initialize\<close>, and the \<open>base_url\<close> of
  an Ollama adapter.
\<close>

record Adapter =
  variant :: AIProvider
  provider_config :: ModelConfig
  conversation_history :: "string list"
  client_ready :: bool
  adapter_base_url :: "string option"

text \<open>The constructors: \<open>BaseAIProvider.__init__\<close> followed by the subclass's own lines.\<close>

definition new_adapter :: "ModelConfig \<Rightarrow> Adapter" where
  "new_adapter c =
     \<lparr>variant = provider c,
      provider_config = c,
      conversation_history = [],
      client_ready = False,
      adapter_base_url =
        (if provider c = OLLAMA
         then (case base_url c of
                 None \<Rightarrow> Some ''http://localhost:11434''
               | Some u \<Rightarrow> if u = [] then Some ''http://localhost:11434'' else Some u)
         else None)\<rparr>"

definition add_to_history :: "Adapter \<Rightarrow> string \<Rightarrow> string \<Rightarrow> Adapter" where
  "add_to_history a user_input ai_response =
     a\<lparr>conversation_history :=
         (conversation_history a @ [''User: '' @ user_input]) @ [''Assistant: '' @ ai_response]\<rparr>"

definition clear_history :: "Adapter \<Rightarrow> Adapter" where
  "clear_history a = a\<lparr>conversation_history := []\<rparr>"

definition get_history :: "Adapter \<Rightarrow> string list" where
  "get_history a = conversation_history a"

text \<open>\<open>xs[-limit:]\<close>; with \<open>limit = 0\<close> the slice is the whole list.\<close>

definition last_entries :: "nat \<Rightarrow> 'a list \<Rightarrow> 'a list" where
  "last_entries limit xs = (if limit = 0 then xs else drop (length xs - limit) xs)"

definition get_context :: "Adapter \<Rightarrow> nat \<Rightarrow> string" where
  "get_context a limit =
     (if conversation_history a \<noteq> [] then join [newline] (last_entries limit (conversation_history a))
      else [])"

definition with_context :: "Adapter \<Rightarrow> string \<Rightarrow> string" where
  "with_context a prompt =
     (let context = get_context a 20
      in if context \<noteq> []
         then ''Previous conversation:'' @ [newline] @ context @ [newline, newline]
              @ ''Current user input: '' @ prompt @ [newline, newline]
              @ ''Please respond naturally and helpfully:''
         else prompt)"

subsection \<open>initialize\<close>

definition is_ImportError :: "exn \<Rightarrow> bool" where
  "is_ImportError e = (case e of ImportError m \<Rightarrow> True | _ \<Rightarrow> False)"

definition api_key_present :: "ModelConfig \<Rightarrow> bool" where
  "api_key_present c = (case api_key c of None \<Rightarrow> False | Some k \<Rightarrow> k \<noteq> [])"

text \<open>
  The three adapters with an API key share one shape: import the package, require the
  key, build the client; an ImportError anywhere in the \<open>try\<close> is replaced by the
  adapter's own ImportError, every other exception propagates.
\<close>

definition initialize_with_key :: "Env \<Rightarrow> string \<Rightarrow> string \<Rightarrow> Adapter \<Rightarrow> exn + Adapter" where
  "initialize_with_key env package name a =
     (let import_error = ImportError (package @ '' package is required for '' @ name @ '' provider'')
      in if \<not> package_installed env (variant a) then Inl import_error
         else if \<not> api_key_present (provider_config a)
         then Inl (ValueError (name @ '' API key is required''))
         else (case client_setup env (provider_config a) of
                 Some e \<Rightarrow> if is_ImportError e then Inl import_error else Inl e
               | None \<Rightarrow> Inr (a\<lparr>client_ready := True\<rparr>)))"

definition the_base_url :: "Adapter \<Rightarrow> string" where
  "the_base_url a = (case adapter_base_url a of None \<Rightarrow> [] | Some u \<Rightarrow> u)"

definition Ollama_initialize :: "Env \<Rightarrow> Adapter \<Rightarrow> exn + Adapter" where
  "Ollama_initialize env a =
     (let attempt =
            (if \<not> package_installed env OLLAMA then Inl (ImportError ''No module named requests'')
             else (case requests_get env (the_base_url a @ ''/api/tags'') of
                     Inl e \<Rightarrow> Inl e
                   | Inr status \<Rightarrow>
                       if status \<noteq> 200 then Inl (ConnectionError ''Cannot connect to Ollama server'')
                       else Inr a))
      in case attempt of
           Inr a' \<Rightarrow> Inr a'
         | Inl e \<Rightarrow>
             if is_ImportError e
             then Inl (ImportError ''requests package is required for Ollama provider'')
             else Inl (ConnectionError (''Failed to connect to Ollama: '' @ str_exn e)))"

definition initialize :: "Env \<Rightarrow> Adapter \<Rightarrow> exn + Adapter" where
  "initialize env a =
     (case variant a of
        GEMINI \<Rightarrow> initialize_with_key env ''google-generativeai'' ''Gemini'' a
      | OPENAI \<Rightarrow> initialize_with_key env ''openai'' ''OpenAI'' a
      | ANTHROPIC \<Rightarrow> initialize_with_key env ''anthropic'' ''Anthropic'' a
      | OLLAMA \<Rightarrow> Ollama_initialize env a)"

text \<open>\<open>AIProviderFactory.create_provider\<close>. The table \<open>_providers\<close> has an entry for each
  of the four members of the enumeration, so its membership test never fails.\<close>

definition create_provider :: "Env \<Rightarrow> ModelConfig \<Rightarrow> exn + Adapter" where
  "create_provider env c = initialize env (new_adapter c)"

subsection \<open>generate_response\<close>

text \<open>
  Each \<open>generate_response\<close> is one \<open>try\<close> block with the handler
  \<open>except Exception as e\<close>. The block is modelled by a function \<open>..._try\<close> that returns
  the exception or the returned text with the adapter after the call; \<open>add_to_history\<close>
  is the last statement before each \<open>return\<close> and cannot raise, so an exception leaves the
  adapter as it was.
\<close>

definition error_reply :: "string \<Rightarrow> exn \<Rightarrow> string" where
  "error_reply name e = ''I'm sorry, I encountered an error: '' @ (''Error with '' @ name @ '': '' @ str_exn e)"

definition none_has_no_attribute :: "string \<Rightarrow> exn" where
  "none_has_no_attribute attr =
     AttributeError (CHR 0x27 # ''NoneType' object has no attribute '' @ [CHR 0x27] @ attr @ [CHR 0x27])"

text \<open>\<open>xs[0]\<close>.\<close>

definition first_item :: "'a list \<Rightarrow> exn + 'a" where
  "first_item xs = (case xs of [] \<Rightarrow> Inl (IndexError ''list index out of range'') | x # _ \<Rightarrow> Inr x)"

text \<open>\<open>xs[i]\<close> for an index that is not negative.\<close>

definition item :: "'a list \<Rightarrow> nat \<Rightarrow> exn + 'a" where
  "item xs i = (if i < length xs then Inr (xs ! i) else Inl (IndexError ''list index out of range''))"

definition Gemini_try :: "Env \<Rightarrow> Adapter \<Rightarrow> string \<Rightarrow> exn + (string \<times> Adapter)" where
  "Gemini_try env a prompt =
     (let full_prompt = with_context a prompt
      in if \<not> client_ready a then Inl (none_has_no_attribute ''generate_content'')
         else (case generate_content env (model_name (provider_config a)) full_prompt of
                 Inl e \<Rightarrow> Inl e
               | Inr text \<Rightarrow>
                   (let ai_response = (if text \<noteq> [] then text
                                       else ''I'm sorry, I couldn't generate a response.'')
                    in Inr (ai_response, add_to_history a prompt ai_response))))"

definition Gemini_generate_response :: "Env \<Rightarrow> Adapter \<Rightarrow> string \<Rightarrow> (exn + string) \<times> Adapter" where
  "Gemini_generate_response env a prompt =
     (case Gemini_try env a prompt of
        Inl e \<Rightarrow> (Inr (error_reply ''Gemini'' e), a)
      | Inr (r, a') \<Rightarrow> (Inr r, a'))"

text \<open>\<open>s.replace(old, new)\<close>: the occurrences of \<open>old\<close> are replaced from left to right
  without overlap; an empty \<open>old\<close> matches before every character and at the end.\<close>

function py_replace :: "string \<Rightarrow> string \<Rightarrow> string \<Rightarrow> string" where
  "py_replace old new s =
     (if old = [] then new @ concat (map (\<lambda>c. c # new) s)
      else if s = [] then []
      else if startswith s old then new @ py_replace old new (drop (length old) s)
      else hd s # py_replace old new (tl s))"
  by pat_completeness auto
termination
  by (relation "measure (\<lambda>(old, new, s). length s)") auto

declare py_replace.simps [simp del]

text \<open>\<open>range(i, stop, step)\<close> for a positive step.\<close>

function py_range :: "nat \<Rightarrow> nat \<Rightarrow> nat \<Rightarrow> nat list" where
  "py_range i stop step = (if step = 0 \<or> stop \<le> i then [] else i # py_range (i + step) stop step)"
  by pat_completeness auto
termination
  by (relation "measure (\<lambda>(i, stop, step). stop - i)") auto

declare py_range.simps [simp del]

text \<open>The body of the loop that replays the history, at index \<open>i\<close>, and the loop.\<close>

definition replay_step :: "string list \<Rightarrow> message list \<Rightarrow> nat \<Rightarrow> exn + message list" where
  "replay_step h messages i =
     (if i + 1 < length h then
        (case item h i of
           Inl e \<Rightarrow> Inl e
         | Inr u \<Rightarrow>
             (case item h (i + 1) of
                Inl e \<Rightarrow> Inl e
              | Inr r \<Rightarrow>
                  (let user_msg = py_replace ''User: '' [] u;
                       assistant_msg = py_replace ''Assistant: '' [] r
                   in Inr ((messages @ [\<lparr>role = ''user'', content = user_msg\<rparr>])
                             @ [\<lparr>role = ''assistant'', content = assistant_msg\<rparr>]))))
      else Inr messages)"

fun replay_loop :: "string list \<Rightarrow> nat list \<Rightarrow> message list \<Rightarrow> exn + message list" where
  "replay_loop h [] messages = Inr messages"
| "replay_loop h (i # rest) messages =
     (case replay_step h messages i of
        Inl e \<Rightarrow> Inl e
      | Inr messages' \<Rightarrow> replay_loop h rest messages')"

definition system_message :: message where
  "system_message = \<lparr>role = ''system'', content = ''You are a helpful AI assistant.''\<rparr>"

definition build_messages :: "string list \<Rightarrow> string \<Rightarrow> exn + message list" where
  "build_messages h prompt =
     (case replay_loop h (py_range 0 (length h) 2) [system_message] of
        Inl e \<Rightarrow> Inl e
      | Inr messages \<Rightarrow> Inr (messages @ [\<lparr>role = ''user'', content = prompt\<rparr>]))"

definition OpenAI_try :: "Env \<Rightarrow> Adapter \<Rightarrow> string \<Rightarrow> exn + (string \<times> Adapter)" where
  "OpenAI_try env a prompt =
     (case build_messages (conversation_history a) prompt of
        Inl e \<Rightarrow> Inl e
      | Inr messages \<Rightarrow>
          if \<not> client_ready a then Inl (none_has_no_attribute ''chat'')
          else (case chat_completions_create env (model_name (provider_config a)) messages
                       (max_tokens (provider_config a)) (temperature (provider_config a)) of
                  Inl e \<Rightarrow> Inl e
                | Inr choices \<Rightarrow>
                    (case first_item choices of
                       Inl e \<Rightarrow> Inl e
                     | Inr ai_response \<Rightarrow> Inr (ai_response, add_to_history a prompt ai_response))))"

definition OpenAI_generate_response :: "Env \<Rightarrow> Adapter \<Rightarrow> string \<Rightarrow> (exn + string) \<times> Adapter" where
  "OpenAI_generate_response env a prompt =
     (case OpenAI_try env a prompt of
        Inl e \<Rightarrow> (Inr (error_reply ''OpenAI'' e), a)
      | Inr (r, a') \<Rightarrow> (Inr r, a'))"

definition Anthropic_try :: "Env \<Rightarrow> Adapter \<Rightarrow> string \<Rightarrow> exn + (string \<times> Adapter)" where
  "Anthropic_try env a prompt =
     (let full_prompt = with_context a prompt
      in if \<not> client_ready a then Inl (none_has_no_attribute ''messages'')
         else (case messages_create env (model_name (provider_config a))
                      (max_tokens (provider_config a)) (temperature (provider_config a))
                      [\<lparr>role = ''user'', content = full_prompt\<rparr>] of
                 Inl e \<Rightarrow> Inl e
               | Inr blocks \<Rightarrow>
                   (case first_item blocks of
                      Inl e \<Rightarrow> Inl e
                    | Inr ai_response \<Rightarrow> Inr (ai_response, add_to_history a prompt ai_response))))"

definition Anthropic_generate_response :: "Env \<Rightarrow> Adapter \<Rightarrow> string \<Rightarrow> (exn + string) \<times> Adapter" where
  "Anthropic_generate_response env a prompt =
     (case Anthropic_try env a prompt of
        Inl e \<Rightarrow> (Inr (error_reply ''Anthropic'' e), a)
      | Inr (r, a') \<Rightarrow> (Inr r, a'))"

text \<open>\<open>result.get("response", "No response generated")\<close>.\<close>

definition get_response_field :: "(string \<times> string) list \<Rightarrow> string" where
  "get_response_field result =
     (case map_of result ''response'' of None \<Rightarrow> ''No response generated'' | Some v \<Rightarrow> v)"

text \<open>The dictionary \<open>payload\<close> that is posted to the Ollama server.\<close>

definition ollama_payload :: "Adapter \<Rightarrow> string \<Rightarrow> payload" where
  "ollama_payload a full_prompt =
     \<lparr>payload_model = model_name (provider_config a),
      payload_prompt = full_prompt,
      payload_stream = False,
      payload_temperature = temperature (provider_config a),
      payload_num_predict = max_tokens (provider_config a)\<rparr>"

definition Ollama_try :: "Env \<Rightarrow> Adapter \<Rightarrow> string \<Rightarrow> exn + (string \<times> Adapter)" where
  "Ollama_try env a prompt =
     (if \<not> package_installed env OLLAMA then Inl (ImportError ''No module named requests'')
      else
        (let full_prompt = with_context a prompt;
             request = ollama_payload a full_prompt
         in case requests_post env (the_base_url a @ ''/api/generate'') request of
              Inl e \<Rightarrow> Inl e
            | Inr response \<Rightarrow>
                if status_code response = 200 then
                  (case json response of
                     Inl e \<Rightarrow> Inl e
                   | Inr result \<Rightarrow>
                       (let ai_response = get_response_field result
                        in Inr (ai_response, add_to_history a prompt ai_response)))
                else Inr (''Error: Ollama server returned status '' @ str_nat (status_code response), a)))"

definition Ollama_generate_response :: "Env \<Rightarrow> Adapter \<Rightarrow> string \<Rightarrow> (exn + string) \<times> Adapter" where
  "Ollama_generate_response env a prompt =
     (case Ollama_try env a prompt of
        Inl e \<Rightarrow> (Inr (error_reply ''Ollama'' e), a)
      | Inr (r, a') \<Rightarrow> (Inr r, a'))"

text \<open>The method call \<open>provider.generate_response(prompt)\<close> dispatches on the class.\<close>

definition generate_response :: "Env \<Rightarrow> Adapter \<Rightarrow> string \<Rightarrow> (exn + string) \<times> Adapter" where
  "generate_response env a prompt =
     (case variant a of
        GEMINI \<Rightarrow> Gemini_generate_response env a prompt
      | OPENAI \<Rightarrow> OpenAI_generate_response env a prompt
      | ANTHROPIC \<Rightarrow> Anthropic_generate_response env a prompt
      | OLLAMA \<Rightarrow> Ollama_generate_response env a prompt)"

section \<open>brain.py\<close>

text \<open>
  The guardrails object holds a reference to the brain's own file processor, so the
  two are one field. What \<open>think\<close> does besides returning is recorded as a list of
  events: each call of the adapter's \<open>generate_response\<close> with its prompt, and each line
  printed.
\<close>

record Brain =
  config :: ModelConfig
  ai_provider :: Adapter
  file_processor :: FileProcessor

datatype event = Generate string | Print string

definition Brain_init :: "Env \<Rightarrow> Config \<Rightarrow> exn + Brain" where
  "Brain_init env cls =
     (case get_active_config cls of
        Inl e \<Rightarrow> Inl e
      | Inr c \<Rightarrow>
          (case create_provider env c of
             Inl e \<Rightarrow> Inl (RuntimeError (''Failed to initialize AI provider (''
                                          @ provider_value (provider c) @ ''): '' @ str_exn e))
           | Inr a \<Rightarrow> Inr \<lparr>config = c, ai_provider = a,
                            file_processor = \<lparr>loaded_files = [], current_file_context = None\<rparr>\<rparr>))"

definition generic_apology :: string where
  "generic_apology = ''I'm sorry, I encountered an error while processing your request. Please try again.''"

text \<open>The truth value of \<open>redirect_message\<close>: \<open>None\<close> and the empty string are false.\<close>

definition truthy :: "string option \<Rightarrow> bool" where
  "truthy m = (case m of None \<Rightarrow> False | Some s \<Rightarrow> s \<noteq> [])"

definition text_of :: "string option \<Rightarrow> string" where
  "text_of m = (case m of None \<Rightarrow> [] | Some s \<Rightarrow> s)"

text \<open>The \<open>try\<close> block of \<open>think\<close>: the outcome, the brain afterwards and the events.\<close>

definition think_try :: "Env \<Rightarrow> nat \<Rightarrow> Brain \<Rightarrow> string \<Rightarrow> (exn + string) \<times> Brain \<times> event list" where
  "think_try env rnd b user_prompt =
     (case check_query_relevance rnd (file_processor b) user_prompt of
        Inl e \<Rightarrow> (Inl e, b, [])
      | Inr (is_relevant, redirect_message) \<Rightarrow>
          if \<not> is_relevant \<and> truthy redirect_message then (Inr (text_of redirect_message), b, [])
          else (case enhance_prompt_with_context (file_processor b) user_prompt of
                  Inl e \<Rightarrow> (Inl e, b, [])
                | Inr enhanced_prompt \<Rightarrow>
                    (case generate_response env (ai_provider b) enhanced_prompt of
                       (r, a') \<Rightarrow> (r, b\<lparr>ai_provider := a'\<rparr>, [Generate enhanced_prompt]))))"

definition think :: "Env \<Rightarrow> nat \<Rightarrow> Brain \<Rightarrow> string \<Rightarrow> (exn + string) \<times> Brain \<times> event list" where
  "think env rnd b user_prompt =
     (case think_try env rnd b user_prompt of
        (Inl e, b', events) \<Rightarrow>
          (let error_message = ''Error processing prompt with '' @ provider_value (provider (config b'))
                                 @ '': '' @ str_exn e
           in (Inr generic_apology, b', events @ [Print (''Brain error: '' @ error_message)]))
      | (Inr r, b', events) \<Rightarrow> (Inr r, b', events))"

definition Brain_clear_history :: "Brain \<Rightarrow> Brain" where
  "Brain_clear_history b = b\<lparr>ai_provider := clear_history (ai_provider b)\<rparr>"

definition Brain_get_history :: "Brain \<Rightarrow> string list" where
  "Brain_get_history b = get_history (ai_provider b)"

text \<open>
  \<open>Brain.switch_model\<close> works on the class \<open>Config\<close> and on the brain, statement by
  statement; an exception at any statement keeps what the earlier statements wrote and
  returns the failure text.
\<close>

definition failed_to_switch :: "AIProvider \<Rightarrow> exn \<Rightarrow> string" where
  "failed_to_switch p e = ''Failed to switch to '' @ provider_value p @ '': '' @ str_exn e"

definition switch_model :: "Env \<Rightarrow> Config \<Rightarrow> Brain \<Rightarrow> AIProvider \<Rightarrow> string \<times> Config \<times> Brain" where
  "switch_model env cls b p =
     (case Config_switch_model cls p of
        Inl e \<Rightarrow> (failed_to_switch p e, cls, b)
      | Inr cls1 \<Rightarrow>
          (case get_active_config cls1 of
             Inl e \<Rightarrow> (failed_to_switch p e, cls1, b)
           | Inr c \<Rightarrow>
               (let b1 = b\<lparr>config := c\<rparr>
                in case create_provider env (config b1) of
                     Inl e \<Rightarrow> (failed_to_switch p e, cls1, b1)
                   | Inr a \<Rightarrow>
                       (let b2 = b1\<lparr>ai_provider := a\<rparr>
                        in (''Switched to '' @ provider_value p @ '' model: '' @ model_name (config b2),
                            cls1, b2)))))"

record model_info =
  info_provider :: string
  info_model_name :: string
  info_temperature :: real
  info_max_tokens :: "int option"

definition get_current_model_info :: "Brain \<Rightarrow> model_info" where
  "get_current_model_info b =
     \<lparr>info_provider = provider_value (provider (config b)),
      info_model_name = model_name (config b),
      info_temperature = temperature (config b),
      info_max_tokens = max_tokens (config b)\<rparr>"

section \<open>Notions used to state the properties\<close>





text \<open>A reply is apologetic when it contains the apology token.\<close>

definition apologetic :: "string \<Rightarrow> bool" where
  "apologetic r = py_in ''I'm sorry'' r"

text \<open>The name that each adapter class uses for itself in its error text, and the
  \<open>try\<close> block of the class of an adapter.\<close>

fun adapter_name :: "AIProvider \<Rightarrow> string" where
  "adapter_name GEMINI = ''Gemini''"
| "adapter_name OPENAI = ''OpenAI''"
| "adapter_name ANTHROPIC = ''Anthropic''"
| "adapter_name OLLAMA = ''Ollama''"

definition generate_try :: "Env \<Rightarrow> Adapter \<Rightarrow> string \<Rightarrow> exn + (string \<times> Adapter)" where
  "generate_try env a prompt =
     (case variant a of
        GEMINI \<Rightarrow> Gemini_try env a prompt
      | OPENAI \<Rightarrow> OpenAI_try env a prompt
      | ANTHROPIC \<Rightarrow> Anthropic_try env a prompt
      | OLLAMA \<Rightarrow> Ollama_try env a prompt)"

text \<open>
  A call of \<open>generate_response\<close> is successful when the backend of the adapter's class
  answers the request that the adapter sends with a text: \<open>backend_returns env a prompt text\<close>.
  For Gemini the text is \<open>response.text\<close>, for OpenAI the content of the first choice,
  for Anthropic the text of the first content block, for Ollama the field \<open>response\<close>
  (or its default) of the body of a reply with status 200.
\<close>

definition backend_returns :: "Env \<Rightarrow> Adapter \<Rightarrow> string \<Rightarrow> string \<Rightarrow> bool" where
  "backend_returns env a prompt text =
     (case variant a of
        GEMINI \<Rightarrow>
          client_ready a
          \<and> generate_content env (model_name (provider_config a)) (with_context a prompt) = Inr text
      | OPENAI \<Rightarrow>
          client_ready a
          \<and> (case build_messages (conversation_history a) prompt of
                 Inl e \<Rightarrow> False
               | Inr messages \<Rightarrow>
                   (case chat_completions_create env (model_name (provider_config a)) messages
                           (max_tokens (provider_config a)) (temperature (provider_config a)) of
                      Inl e \<Rightarrow> False
                    | Inr choices \<Rightarrow> first_item choices = Inr text))
      | ANTHROPIC \<Rightarrow>
          client_ready a
          \<and> (case messages_create env (model_name (provider_config a))
                      (max_tokens (provider_config a)) (temperature (provider_config a))
                      [\<lparr>role = ''user'', content = with_context a prompt\<rparr>] of
                 Inl e \<Rightarrow> False
               | Inr blocks \<Rightarrow> first_item blocks = Inr text)
      | OLLAMA \<Rightarrow>
          package_installed env OLLAMA
          \<and> (case requests_post env (the_base_url a @ ''/api/generate'')
                      (ollama_payload a (with_context a prompt)) of
                 Inl e \<Rightarrow> False
               | Inr response \<Rightarrow>
                   status_code response = 200
                   \<and> (case json response of
                          Inl e \<Rightarrow> False
                        | Inr result \<Rightarrow> get_response_field result = text)))"

text \<open>The stored history read two entries at a time; an entry left over at the end has
  no partner and is dropped. \<open>replayed\<close> is the pair of messages made from one pair.\<close>

fun pairs_of :: "'a list \<Rightarrow> ('a \<times> 'a) list" where
  "pairs_of (u # r # rest) = (u, r) # pairs_of rest"
| "pairs_of [u] = []"
| "pairs_of [] = []"

definition replayed :: "string \<times> string \<Rightarrow> message list" where
  "replayed p =
     [\<lparr>role = ''user'', content = py_replace ''User: '' [] (fst p)\<rparr>,
      \<lparr>role = ''assistant'', content = py_replace ''Assistant: '' [] (snd p)\<rparr>]"

section \<open>Example states\<close>

definition no_files :: FileProcessor where
  "no_files = \<lparr>loaded_files = [], current_file_context = None\<rparr>"

definition sales_file :: FileProcessor where
  "sales_file =
     \<lparr>loaded_files = [(''sales_data.csv'',
                        \<lparr>columns = [StrLabel ''date'', StrLabel ''sales'', StrLabel ''region''],
                           nrows = 12\<rparr>)],
      current_file_context = Some ''sales_data.csv''\<rparr>"


text \<open>An environment in which every package is installed and the hosted backends answer,
  while nothing listens on the Ollama port; and environments whose Ollama server answers
  a generation request with a given response.\<close>

definition offline_env :: Env where
  "offline_env =
     \<lparr>package_installed = (\<lambda>p. True),
      client_setup = (\<lambda>c. None),
      requests_get = (\<lambda>url. Inl (OtherException ''Connection refused'')),
      generate_content = (\<lambda>m p. Inr ''The data has 12 rows.''),
      chat_completions_create = (\<lambda>m ms mt t. Inr [''The data has 12 rows.'']),
      messages_create = (\<lambda>m mt t ms. Inr [''The data has 12 rows.'']),
      requests_post = (\<lambda>url p. Inl (OtherException ''Connection refused''))\<rparr>"

definition ollama_env :: "http_response \<Rightarrow> Env" where
  "ollama_env response =
     offline_env\<lparr>requests_get := (\<lambda>url. Inr 200), requests_post := (\<lambda>url p. Inr response)\<rparr>"

definition openai_adapter :: Adapter where
  "openai_adapter =
     \<lparr>variant = OPENAI,
      provider_config = default_model_config OPENAI,
      conversation_history = [''User: how many rows?'', ''Assistant: The data has 12 rows.''],
      client_ready = True,
      adapter_base_url = None\<rparr>"

definition ollama_adapter :: Adapter where
  "ollama_adapter =
     \<lparr>variant = OLLAMA,
      provider_config = default_model_config OLLAMA,
      conversation_history = [],
      client_ready = False,
      adapter_base_url = Some ''http://localhost:11434''\<rparr>"

definition demo_brain :: Brain where
  "demo_brain =
     \<lparr>config = default_model_config OPENAI, ai_provider = openai_adapter, file_processor = no_files\<rparr>"

definition gemini_adapter :: Adapter where
  "gemini_adapter =
     \<lparr>variant = GEMINI,
      provider_config = default_model_config GEMINI,
      conversation_history = [],
      client_ready = True,
      adapter_base_url = None\<rparr>"

text \<open>An environment whose Gemini backend answers with an empty text.\<close>

definition silent_env :: Env where
  "silent_env = offline_env\<lparr>generate_content := (\<lambda>m p. Inr [])\<rparr>"


section \<open>Auxiliary facts\<close>

lemma random_choice_mem: "seq \<noteq> [] \<Longrightarrow> \<exists>m. random_choice rnd seq = Inr m \<and> m \<in> set seq"
  by (simp add: random_choice_def)

lemma pools_nonempty: "no_data_responses \<noteq> []" "redirect_responses \<noteq> []"
  by (simp_all add: no_data_responses_def redirect_responses_def)

lemma pools_disjoint: "set no_data_responses \<inter> set redirect_responses = {}"
  by (simp add: no_data_responses_def redirect_responses_def)

lemma pool_texts_nonempty: "m \<in> set no_data_responses \<union> set redirect_responses \<Longrightarrow> m \<noteq> []"
  by (auto simp add: no_data_responses_def redirect_responses_def)








lemma initialize_keeps_history:
  "initialize env a = Inr a' \<Longrightarrow> conversation_history a' = conversation_history a"
  by (auto simp add: initialize_def initialize_with_key_def Ollama_initialize_def Let_def
      split: AIProvider.splits if_splits option.splits sum.splits)

lemma create_provider_history:
  "create_provider env c = Inr a \<Longrightarrow> conversation_history a = []"
  using initialize_keeps_history [of env "new_adapter c" a]
  by (simp add: create_provider_def new_adapter_def)

lemma pairs_of_snoc: "even (length h) \<Longrightarrow> pairs_of (h @ [x]) = pairs_of h"
  by (induction h rule: pairs_of.induct) auto

text \<open>The loop over \<open>range(i, len(h), 2)\<close> appends the pairs of the entries from \<open>i\<close> on.\<close>

lemma replay_loop_pairs:
  "replay_loop h (py_range i (length h) 2) msgs
     = Inr (msgs @ concat (map replayed (pairs_of (drop i h))))"
proof (induction "length h - i" arbitrary: i msgs rule: less_induct)
  case less
  show ?case
  proof (cases "length h \<le> i")
    case True
    then show ?thesis by (simp add: py_range.simps)
  next
    case False
    then have lt: "i < length h" by simp
    show ?thesis
    proof (cases "i + 1 < length h")
      case True
      have d: "drop i h = h ! i # h ! Suc i # drop (Suc (Suc i)) h"
        using Cons_nth_drop_Suc [OF lt] Cons_nth_drop_Suc [of "Suc i" h] True by simp
      have ih: "replay_loop h (py_range (Suc (Suc i)) (length h) 2) m
                  = Inr (m @ concat (map replayed (pairs_of (drop (Suc (Suc i)) h))))" for m
        using less [of "Suc (Suc i)" m] lt by simp
      have r: "py_range i (length h) 2 = i # py_range (Suc (Suc i)) (length h) 2"
        using lt by (subst py_range.simps) simp
      show ?thesis
        using True lt by (simp add: r d ih replay_step_def item_def replayed_def)
    next
      case False
      then have e: "Suc i = length h" using lt by simp
      then have d: "drop i h = [h ! i]"
        using Cons_nth_drop_Suc [OF lt] by simp
      have r0: "py_range (i + 2) (length h) 2 = []"
        using e by (subst py_range.simps) simp
      have r: "py_range i (length h) 2 = [i]"
        using lt r0 by (subst py_range.simps) simp
      show ?thesis
        using False by (simp add: r d replay_step_def)
    qed
  qed
qed

lemma build_messages_eq:
  "build_messages h prompt
     = Inr (system_message # concat (map replayed (pairs_of h)) @ [\<lparr>role = ''user'', content = prompt\<rparr>])"
  using replay_loop_pairs [of h 0 "[system_message]"] by (simp add: build_messages_def)

lemma startswith_append: "startswith (k @ post) k"
  by (induction k) auto

lemma py_in_prefix: "py_in k (k @ post)"
proof (cases "k @ post")
  case Nil
  then show ?thesis by simp
next
  case (Cons c cs)
  have "startswith (k @ post) k" by (rule startswith_append)
  then show ?thesis by (simp add: Cons)
qed

lemma py_in_append: "py_in k (pre @ k @ post)"
  by (induction pre) (auto simp add: py_in_prefix)

lemma apologetic_error_reply: "apologetic (error_reply name e)"
proof -
  have "error_reply name e = ''I'm sorry'' @ ('', I encountered an error: '' @ (''Error with '' @ name @ '': '' @ str_exn e))"
    by (simp add: error_reply_def)
  then show ?thesis by (simp only: apologetic_def py_in_prefix)
qed

lemma error_reply_embeds: "py_in (str_exn e) (error_reply name e)"
proof -
  have "error_reply name e = (''I'm sorry, I encountered an error: '' @ ''Error with '' @ name @ '': '') @ str_exn e @ []"
    by (simp add: error_reply_def)
  then show ?thesis by (simp only: py_in_append)
qed

section \<open>The relevance classifier\<close>

text \<open>
  C2, as amended. For every input whose lower-cased text matches one of the off-topic
  patterns, for every loaded-files state and every random draw, \<open>check_query_relevance\<close>
  returns not-relevant with a message. The message comes from \<open>redirect_responses\<close>
  (and not from \<open>no_data_responses\<close>) when a file is loaded or the text mentions
  \<open>load\<close>, \<open>file\<close> or \<open>data\<close>; with no file loaded and none of these words, the first
  rule of the classifier answers and the message comes from \<open>no_data_responses\<close>.
\<close>

theorem off_topic_is_redirected:
  assumes "matches_off_topic (lower s)"
  shows "\<exists>m. check_query_relevance rnd fp s = Inr (False, Some m) \<and>
           (if list_loaded_files fp = [] \<and> \<not> mentions_any [''load'', ''file'', ''data''] (lower s)
            then m \<in> set no_data_responses \<and> m \<notin> set redirect_responses
            else m \<in> set redirect_responses \<and> m \<notin> set no_data_responses)"
proof -
  obtain m1 where m1: "random_choice rnd no_data_responses = Inr m1" "m1 \<in> set no_data_responses"
    using random_choice_mem [OF pools_nonempty(1)] by blast
  obtain m2 where m2: "random_choice rnd redirect_responses = Inr m2" "m2 \<in> set redirect_responses"
    using random_choice_mem [OF pools_nonempty(2)] by blast
  have "m1 \<notin> set redirect_responses" "m2 \<notin> set no_data_responses"
    using m1(2) m2(2) pools_disjoint by auto
  then show ?thesis
    using assms m1 m2 by (simp add: check_query_relevance_def Let_def)
qed

theorem off_topic_is_redirected_witness:
  "matches_off_topic (lower ''Any NEWS?'')
   \<and> (\<exists>m. check_query_relevance 2 sales_file ''Any NEWS?'' = Inr (False, Some m)
          \<and> m \<in> set redirect_responses \<and> m \<notin> set no_data_responses)"
proof -
  have h: "matches_off_topic (lower ''Any NEWS?'')" by code_simp
  have l: "list_loaded_files sales_file \<noteq> []" by (simp add: list_loaded_files_def sales_file_def)
  show ?thesis
    using h l off_topic_is_redirected [OF h, of 2 sales_file] by simp
qed

text \<open>
  C2 as stated fails when no file is loaded: \<open>what's the weather?\<close> matches the first
  off-topic pattern, and the classifier answers from \<open>no_data_responses\<close>.
\<close>

theorem off_topic_without_dataset_counterexample:
  "matches_off_topic (lower ''what's the weather?'')
   \<and> check_query_relevance 0 no_files ''what's the weather?'' = Inr (False, Some (no_data_responses ! 0))
   \<and> no_data_responses ! 0 \<notin> set redirect_responses"
  by code_simp




text \<open>
  C10. For every input, loaded-files state and random draw, \<open>check_query_relevance\<close>
  returns a pair; whenever the pair says not-relevant, its message is a string, not
  \<open>None\<close>, it is not empty (so the guard \<open>not is_relevant and redirect_message\<close> of
  \<open>think\<close> holds), and it is a member of \<open>no_data_responses\<close> or of
  \<open>redirect_responses\<close>.
\<close>

theorem not_relevant_has_message:
  "(\<exists>r. check_query_relevance rnd fp s = Inr r) \<and>
   (\<forall>m. check_query_relevance rnd fp s = Inr (False, m) \<longrightarrow>
      (\<exists>t. m = Some t \<and> t \<noteq> [] \<and> truthy m
           \<and> (t \<in> set no_data_responses \<or> t \<in> set redirect_responses)))"
proof -
  obtain m1 where m1: "random_choice rnd no_data_responses = Inr m1" "m1 \<in> set no_data_responses"
    using random_choice_mem [OF pools_nonempty(1)] by blast
  obtain m2 where m2: "random_choice rnd redirect_responses = Inr m2" "m2 \<in> set redirect_responses"
    using random_choice_mem [OF pools_nonempty(2)] by blast
  have "m1 \<noteq> []" "m2 \<noteq> []" using m1 m2 pool_texts_nonempty by auto
  then show ?thesis using m1 m2
    by (auto simp add: check_query_relevance_def Let_def truthy_def)
qed

theorem not_relevant_has_message_witness:
  "check_query_relevance 3 no_files ''Load it'' = Inr (False, Some (redirect_responses ! 3))
   \<and> redirect_responses ! 3 \<noteq> [] \<and> truthy (Some (redirect_responses ! 3))
   \<and> (redirect_responses ! 3 \<in> set no_data_responses \<or> redirect_responses ! 3 \<in> set redirect_responses)"
proof -
  have h: "check_query_relevance 3 no_files ''Load it'' = Inr (False, Some (redirect_responses ! 3))"
    by code_simp
  show ?thesis
    using h not_relevant_has_message [of 3 no_files "''Load it''"] by auto
qed

section \<open>The orchestrator\<close>

text \<open>
  C6. Whenever \<open>check_query_relevance\<close> classifies the input as not-relevant, \<open>think\<close>
  returns the redirect message; the brain after the call is the brain before it, so the
  conversation history is unchanged, and no event is recorded, so the adapter's
  \<open>generate_response\<close> is not called.
\<close>

theorem think_short_circuits:
  assumes "check_query_relevance rnd (file_processor b) s = Inr (False, m)"
  shows "\<exists>t. m = Some t \<and> think env rnd b s = (Inr t, b, [])"
proof -
  obtain m1 where m1: "random_choice rnd no_data_responses = Inr m1" "m1 \<in> set no_data_responses"
    using random_choice_mem [OF pools_nonempty(1)] by blast
  obtain m2 where m2: "random_choice rnd redirect_responses = Inr m2" "m2 \<in> set redirect_responses"
    using random_choice_mem [OF pools_nonempty(2)] by blast
  have ne: "m1 \<noteq> []" "m2 \<noteq> []" using m1 m2 pool_texts_nonempty by auto
  from assms m1 m2 have "m = Some m1 \<or> m = Some m2"
    by (auto simp add: check_query_relevance_def Let_def split: if_splits)
  then obtain t where t: "m = Some t" "t \<noteq> []" using ne by auto
  then show ?thesis
    using assms by (simp add: think_def think_try_def truthy_def text_of_def)
qed

theorem think_short_circuits_witness:
  "check_query_relevance 1 (file_processor demo_brain) ''hello'' = Inr (False, Some (no_data_responses ! 1))
   \<and> think offline_env 1 demo_brain ''hello'' = (Inr (no_data_responses ! 1), demo_brain, [])
   \<and> Brain_get_history demo_brain \<noteq> []"
proof -
  have h: "check_query_relevance 1 (file_processor demo_brain) ''hello'' = Inr (False, Some (no_data_responses ! 1))"
    by code_simp
  have g: "Brain_get_history demo_brain \<noteq> []"
    by (simp add: Brain_get_history_def get_history_def demo_brain_def openai_adapter_def)
  show ?thesis
    using h g think_short_circuits [OF h, of offline_env] by simp
qed

section \<open>Switching the provider\<close>

text \<open>
  C7. After every successful \<open>switch_model\<close>, that is, one that returns the text
  \<open>Switched to ...\<close>, \<open>get_history\<close> on the brain returns the empty list, whatever the
  history was before: the new adapter is built by \<open>create_provider\<close>, whose constructor
  starts the history empty, and \<open>initialize\<close> does not write to it.
\<close>

theorem switch_discards_history:
  assumes "startswith (fst (switch_model env cls b p)) ''Switched to ''"
  shows "Brain_get_history (snd (snd (switch_model env cls b p))) = []"
  using assms
  by (auto simp add: switch_model_def failed_to_switch_def Let_def Brain_get_history_def
      get_history_def create_provider_history split: sum.splits)

theorem switch_discards_history_witness:
  "Brain_get_history demo_brain \<noteq> []
   \<and> startswith (fst (switch_model offline_env initial_Config demo_brain ANTHROPIC)) ''Switched to ''
   \<and> Brain_get_history (snd (snd (switch_model offline_env initial_Config demo_brain ANTHROPIC))) = []"
proof -
  have h: "startswith (fst (switch_model offline_env initial_Config demo_brain ANTHROPIC)) ''Switched to ''"
    by code_simp
  have g: "Brain_get_history demo_brain \<noteq> []"
    by (simp add: Brain_get_history_def get_history_def demo_brain_def openai_adapter_def)
  show ?thesis
    using h g switch_discards_history [OF h] by simp
qed

text \<open>
  C1, evaluated where the new provider cannot initialize. The brain serves OpenAI and
  is asked to switch to Ollama while no Ollama server is reachable. \<open>switch_model\<close>
  returns the failure text and keeps the OpenAI adapter, but \<open>Config.ACTIVE_MODEL\<close> and
  the brain's \<open>config\<close> have already been written: the active pointer and
  \<open>get_current_model_info\<close> name Ollama.
\<close>

theorem failed_switch_moves_active_pointer:
  "switch_model offline_env initial_Config demo_brain OLLAMA =
     (''Failed to switch to ollama: Failed to connect to Ollama: Connection refused'',
      initial_Config\<lparr>ACTIVE_MODEL := OLLAMA\<rparr>,
      demo_brain\<lparr>config := default_model_config OLLAMA\<rparr>)
   \<and> ACTIVE_MODEL initial_Config = OPENAI
   \<and> info_provider (get_current_model_info demo_brain) = ''openai''
   \<and> info_provider (get_current_model_info (demo_brain\<lparr>config := default_model_config OLLAMA\<rparr>)) = ''ollama''
   \<and> variant (ai_provider (demo_brain\<lparr>config := default_model_config OLLAMA\<rparr>)) = OPENAI"
  by (simp add: switch_model_def Config_switch_model_def get_active_config_def initial_Config_def
      create_provider_def initialize_def new_adapter_def Ollama_initialize_def offline_env_def
      the_base_url_def is_ImportError_def failed_to_switch_def default_model_config_def
      demo_brain_def get_current_model_info_def openai_adapter_def Let_def)

section \<open>The conversation history\<close>

text \<open>
  C9. For every stored history and every prompt, the OpenAI adapter's rebuilding of the
  message list raises nothing and gives the system message, then the messages of the
  complete (user, assistant) pairs of the history taken two at a time, then the current
  prompt. An entry left without a partner at the end of a history of odd length is
  ignored: appending one entry to a history of even length does not change the list.
\<close>

theorem replay_takes_complete_pairs:
  "build_messages h prompt
     = Inr (system_message # concat (map replayed (pairs_of h)) @ [\<lparr>role = ''user'', content = prompt\<rparr>])
   \<and> (even (length h) \<longrightarrow> build_messages (h @ [x]) prompt = build_messages h prompt)"
  by (simp add: build_messages_eq pairs_of_snoc)

theorem replay_takes_complete_pairs_witness:
  "even (length [''User: a'', ''Assistant: b''])
   \<and> build_messages ([''User: a'', ''Assistant: b''] @ [''User: c'']) ''d''
       = build_messages [''User: a'', ''Assistant: b''] ''d''
   \<and> build_messages [''User: a'', ''Assistant: b''] ''d''
       = Inr [system_message, \<lparr>role = ''user'', content = ''a''\<rparr>, \<lparr>role = ''assistant'', content = ''b''\<rparr>,
              \<lparr>role = ''user'', content = ''d''\<rparr>]"
proof -
  have e: "even (length [''User: a'', ''Assistant: b''])" by simp
  have p: "py_replace ''User: '' [] ''User: a'' = ''a''"
    by (simp add: py_replace.simps)
  have q: "py_replace ''Assistant: '' [] ''Assistant: b'' = ''b''"
    by (simp add: py_replace.simps)
  note t = replay_takes_complete_pairs [of "[''User: a'', ''Assistant: b'']" "''d''" "''User: c''"]
  have w1: "build_messages ([''User: a'', ''Assistant: b''] @ [''User: c'']) ''d''
       = build_messages [''User: a'', ''Assistant: b''] ''d''"
    using t e by blast
  have w2: "build_messages [''User: a'', ''Assistant: b''] ''d''
       = Inr [system_message, \<lparr>role = ''user'', content = ''a''\<rparr>, \<lparr>role = ''assistant'', content = ''b''\<rparr>,
              \<lparr>role = ''user'', content = ''d''\<rparr>]"
    using t by (simp add: replayed_def p q)
  show ?thesis
    using e w1 w2 by blast
qed

text \<open>
  C8. \<open>clear_history\<close> followed by \<open>get_history\<close> gives the empty list, on the adapter
  and through the brain, whatever the history was. When the backend answers the request
  of \<open>generate_response\<close> with a text, the call returns the reply \<open>r\<close> (the text, or the
  fixed sentence that the Gemini adapter puts in place of an empty text) and the history
  afterwards is the history before followed by exactly the two entries \<open>User: prompt\<close>
  and \<open>Assistant: r\<close>, in this order.
\<close>

theorem history_round_trip:
  "get_history (clear_history a) = []
   \<and> Brain_get_history (Brain_clear_history b) = []
   \<and> (backend_returns env a prompt text \<longrightarrow>
        (\<exists>r. r = (if variant a = GEMINI \<and> text = []
                   then ''I'm sorry, I couldn't generate a response.'' else text)
             \<and> generate_response env a prompt = (Inr r, add_to_history a prompt r)
             \<and> get_history (add_to_history a prompt r)
                 = get_history a @ [''User: '' @ prompt, ''Assistant: '' @ r]))"
proof (intro conjI impI)
  show "get_history (clear_history a) = []"
    by (simp add: get_history_def clear_history_def)
  show "Brain_get_history (Brain_clear_history b) = []"
    by (simp add: Brain_get_history_def Brain_clear_history_def get_history_def clear_history_def)
  assume "backend_returns env a prompt text"
  then show "\<exists>r. r = (if variant a = GEMINI \<and> text = []
                   then ''I'm sorry, I couldn't generate a response.'' else text)
             \<and> generate_response env a prompt = (Inr r, add_to_history a prompt r)
             \<and> get_history (add_to_history a prompt r)
                 = get_history a @ [''User: '' @ prompt, ''Assistant: '' @ r]"
    by (cases "variant a")
       (auto simp add: backend_returns_def generate_response_def
          Gemini_generate_response_def Gemini_try_def
          OpenAI_generate_response_def OpenAI_try_def
          Anthropic_generate_response_def Anthropic_try_def
          Ollama_generate_response_def Ollama_try_def
          get_history_def add_to_history_def Let_def
          split: sum.splits)
qed

theorem history_round_trip_witness:
  "backend_returns offline_env openai_adapter ''and columns?'' ''The data has 12 rows.''
   \<and> generate_response offline_env openai_adapter ''and columns?''
       = (Inr ''The data has 12 rows.'',
          add_to_history openai_adapter ''and columns?'' ''The data has 12 rows.'')
   \<and> get_history (add_to_history openai_adapter ''and columns?'' ''The data has 12 rows.'')
       = get_history openai_adapter @ [''User: and columns?'', ''Assistant: The data has 12 rows.'']"
proof -
  have h: "backend_returns offline_env openai_adapter ''and columns?'' ''The data has 12 rows.''"
    by (simp add: backend_returns_def build_messages_eq offline_env_def openai_adapter_def
        first_item_def)
  have v: "variant openai_adapter \<noteq> GEMINI"
    by (simp add: openai_adapter_def)
  show ?thesis
    using h v history_round_trip [of openai_adapter demo_brain offline_env "''and columns?''"
                                     "''The data has 12 rows.''"]
    by simp
qed

section \<open>Failures inside the adapters\<close>

text \<open>
  C5, as amended. For every adapter, environment and prompt, \<open>generate_response\<close> raises
  nothing. Whenever an exception is raised inside its \<open>try\<close> block (a network or
  authentication error of the backend call, a body that cannot be decoded, an empty list
  of choices, a missing client), it returns the text
  \<open>I'm sorry, I encountered an error: Error with <name>: <error text>\<close>, which is
  apologetic and contains the error text, and the adapter is unchanged. Three outcomes
  are not exceptions. A status other than 200 from the Ollama server gives
  \<open>Error: Ollama server returned status <code>\<close>, with no apology. A body of the Ollama
  server without the field \<open>response\<close> gives \<open>No response generated\<close>, and an empty text
  from Gemini gives \<open>I'm sorry, I couldn't generate a response.\<close>; both are recorded in
  the history as the assistant's turn.
\<close>

theorem generate_response_fails_soft:
  "(\<exists>r a'. generate_response env a prompt = (Inr r, a')) \<and>
   (\<forall>e. generate_try env a prompt = Inl e \<longrightarrow>
        generate_response env a prompt = (Inr (error_reply (adapter_name (variant a)) e), a)
        \<and> apologetic (error_reply (adapter_name (variant a)) e)
        \<and> py_in (str_exn e) (error_reply (adapter_name (variant a)) e)) \<and>
   (\<forall>response. variant a = OLLAMA \<and> package_installed env OLLAMA
        \<and> requests_post env (the_base_url a @ ''/api/generate'')
              (ollama_payload a (with_context a prompt)) = Inr response
        \<and> status_code response \<noteq> 200 \<longrightarrow>
        generate_response env a prompt
          = (Inr (''Error: Ollama server returned status '' @ str_nat (status_code response)), a)) \<and>
   (\<forall>response result. variant a = OLLAMA \<and> package_installed env OLLAMA
        \<and> requests_post env (the_base_url a @ ''/api/generate'')
              (ollama_payload a (with_context a prompt)) = Inr response
        \<and> status_code response = 200 \<and> json response = Inr result
        \<and> map_of result ''response'' = None \<longrightarrow>
        generate_response env a prompt
          = (Inr ''No response generated'', add_to_history a prompt ''No response generated'')) \<and>
   (variant a = GEMINI \<and> client_ready a
        \<and> generate_content env (model_name (provider_config a)) (with_context a prompt) = Inr [] \<longrightarrow>
        generate_response env a prompt
          = (Inr ''I'm sorry, I couldn't generate a response.'',
             add_to_history a prompt ''I'm sorry, I couldn't generate a response.''))"
proof (intro conjI allI impI)
  show "\<exists>r a'. generate_response env a prompt = (Inr r, a')"
    by (cases "variant a")
       (auto simp add: generate_response_def Gemini_generate_response_def
          OpenAI_generate_response_def Anthropic_generate_response_def
          Ollama_generate_response_def split: sum.splits prod.splits)
next
  fix e assume "generate_try env a prompt = Inl e"
  then show "generate_response env a prompt = (Inr (error_reply (adapter_name (variant a)) e), a)"
    by (cases "variant a")
       (simp_all add: generate_try_def generate_response_def Gemini_generate_response_def
          OpenAI_generate_response_def Anthropic_generate_response_def
          Ollama_generate_response_def)
next
  fix e show "apologetic (error_reply (adapter_name (variant a)) e)"
    by (rule apologetic_error_reply)
next
  fix e show "py_in (str_exn e) (error_reply (adapter_name (variant a)) e)"
    by (rule error_reply_embeds)
next
  fix response
  assume "variant a = OLLAMA \<and> package_installed env OLLAMA
        \<and> requests_post env (the_base_url a @ ''/api/generate'')
              (ollama_payload a (with_context a prompt)) = Inr response
        \<and> status_code response \<noteq> 200"
  then show "generate_response env a prompt
          = (Inr (''Error: Ollama server returned status '' @ str_nat (status_code response)), a)"
    by (simp add: generate_response_def Ollama_generate_response_def Ollama_try_def Let_def)
next
  fix response result
  assume "variant a = OLLAMA \<and> package_installed env OLLAMA
        \<and> requests_post env (the_base_url a @ ''/api/generate'')
              (ollama_payload a (with_context a prompt)) = Inr response
        \<and> status_code response = 200 \<and> json response = Inr result
        \<and> map_of result ''response'' = None"
  then show "generate_response env a prompt
          = (Inr ''No response generated'', add_to_history a prompt ''No response generated'')"
    by (simp add: generate_response_def Ollama_generate_response_def Ollama_try_def Let_def
        get_response_field_def)
next
  assume "variant a = GEMINI \<and> client_ready a
        \<and> generate_content env (model_name (provider_config a)) (with_context a prompt) = Inr []"
  then show "generate_response env a prompt
          = (Inr ''I'm sorry, I couldn't generate a response.'',
             add_to_history a prompt ''I'm sorry, I couldn't generate a response.'')"
    by (simp add: generate_response_def Gemini_generate_response_def Gemini_try_def Let_def)
qed

theorem generate_response_fails_soft_witness:
  "generate_try offline_env ollama_adapter ''show data'' = Inl (OtherException ''Connection refused'')
   \<and> generate_response offline_env ollama_adapter ''show data''
       = (Inr ''I'm sorry, I encountered an error: Error with Ollama: Connection refused'', ollama_adapter)
   \<and> status_code \<lparr>status_code = 503, json = Inr []\<rparr> \<noteq> 200
   \<and> generate_response (ollama_env \<lparr>status_code = 503, json = Inr []\<rparr>) ollama_adapter ''show data''
       = (Inr ''Error: Ollama server returned status 503'', ollama_adapter)
   \<and> map_of [(''model'', ''llama2'')] ''response'' = None
   \<and> generate_response (ollama_env \<lparr>status_code = 200, json = Inr [(''model'', ''llama2'')]\<rparr>)
         ollama_adapter ''show data''
       = (Inr ''No response generated'',
          add_to_history ollama_adapter ''show data'' ''No response generated'')
   \<and> generate_content silent_env (model_name (provider_config gemini_adapter))
         (with_context gemini_adapter ''show data'') = Inr []
   \<and> generate_response silent_env gemini_adapter ''show data''
       = (Inr ''I'm sorry, I couldn't generate a response.'',
          add_to_history gemini_adapter ''show data'' ''I'm sorry, I couldn't generate a response.'')"
proof -
  have h: "generate_try offline_env ollama_adapter ''show data'' = Inl (OtherException ''Connection refused'')"
    by (simp add: generate_try_def Ollama_try_def offline_env_def ollama_adapter_def Let_def)
  have v: "variant ollama_adapter = OLLAMA"
    by (simp add: ollama_adapter_def)
  have i: "package_installed (ollama_env r) OLLAMA" for r
    by (simp add: ollama_env_def offline_env_def)
  have p: "requests_post (ollama_env r) (the_base_url ollama_adapter @ ''/api/generate'')
             (ollama_payload ollama_adapter (with_context ollama_adapter ''show data'')) = Inr r" for r
    by (simp add: ollama_env_def)
  have n: "str_nat 503 = ''503''"
    by code_simp
  have s: "status_code \<lparr>status_code = 503, json = Inr []\<rparr> \<noteq> 200"
    by simp
  have m: "map_of [(''model'', ''llama2'')] ''response'' = None"
    by simp
  have g: "variant gemini_adapter = GEMINI \<and> client_ready gemini_adapter"
    by (simp add: gemini_adapter_def)
  have c: "generate_content silent_env (model_name (provider_config gemini_adapter))
         (with_context gemini_adapter ''show data'') = Inr []"
    by (simp add: silent_env_def)
  note t1 = generate_response_fails_soft [of offline_env ollama_adapter "''show data''"]
  note t2 = generate_response_fails_soft
              [of "ollama_env \<lparr>status_code = 503, json = Inr []\<rparr>" ollama_adapter "''show data''"]
  note t3 = generate_response_fails_soft
              [of "ollama_env \<lparr>status_code = 200, json = Inr [(''model'', ''llama2'')]\<rparr>"
                  ollama_adapter "''show data''"]
  note t4 = generate_response_fails_soft [of silent_env gemini_adapter "''show data''"]
  have w1: "generate_response offline_env ollama_adapter ''show data''
       = (Inr ''I'm sorry, I encountered an error: Error with Ollama: Connection refused'', ollama_adapter)"
    using t1 h v by (simp add: error_reply_def)
  have w2: "generate_response (ollama_env \<lparr>status_code = 503, json = Inr []\<rparr>) ollama_adapter ''show data''
       = (Inr ''Error: Ollama server returned status 503'', ollama_adapter)"
    using t2 v i p s n by simp
  have w3: "generate_response (ollama_env \<lparr>status_code = 200, json = Inr [(''model'', ''llama2'')]\<rparr>)
         ollama_adapter ''show data''
       = (Inr ''No response generated'',
          add_to_history ollama_adapter ''show data'' ''No response generated'')"
    using t3 v i p m by simp
  have w4: "generate_response silent_env gemini_adapter ''show data''
       = (Inr ''I'm sorry, I couldn't generate a response.'',
          add_to_history gemini_adapter ''show data'' ''I'm sorry, I couldn't generate a response.'')"
    using t4 g c by simp
  show ?thesis
    using h s m c w1 w2 w3 w4 by blast
qed

text \<open>
  C5 as stated fails on the Ollama adapter: a reply with status 500 gives a text without
  an apology, and a reply with status 200 whose body has no field \<open>response\<close> (an empty
  response) gives \<open>No response generated\<close>, which is recorded in the history as the
  assistant's turn.
\<close>

theorem status_reply_counterexample:
  "generate_response (ollama_env \<lparr>status_code = 500, json = Inr []\<rparr>) ollama_adapter ''show data''
     = (Inr ''Error: Ollama server returned status 500'', ollama_adapter)
   \<and> \<not> apologetic ''Error: Ollama server returned status 500''
   \<and> generate_response (ollama_env \<lparr>status_code = 200, json = Inr []\<rparr>) ollama_adapter ''show data''
     = (Inr ''No response generated'', add_to_history ollama_adapter ''show data'' ''No response generated'')
   \<and> \<not> apologetic ''No response generated''"
proof -
  have n: "str_nat 500 = ''500''"
    by code_simp
  have a: "\<not> apologetic ''Error: Ollama server returned status 500''"
    by code_simp
  have b: "\<not> apologetic ''No response generated''"
    by code_simp
  have w1: "generate_response (ollama_env \<lparr>status_code = 500, json = Inr []\<rparr>) ollama_adapter ''show data''
     = (Inr ''Error: Ollama server returned status 500'', ollama_adapter)"
    using n by (simp add: generate_response_def Ollama_generate_response_def Ollama_try_def
        ollama_env_def offline_env_def ollama_adapter_def Let_def)
  have w2: "generate_response (ollama_env \<lparr>status_code = 200, json = Inr []\<rparr>) ollama_adapter ''show data''
     = (Inr ''No response generated'', add_to_history ollama_adapter ''show data'' ''No response generated'')"
    by (simp add: generate_response_def Ollama_generate_response_def Ollama_try_def
        ollama_env_def offline_env_def ollama_adapter_def get_response_field_def Let_def)
  show ?thesis
    using a b w1 w2 by blast
qed

section \<open>The boundary of think\<close>



end
